theory Spec2Isabelle
  imports Complex_Main "HOL-Library.AList"
begin

section \<open>Numbers, strings and platform values\<close>

text \<open>
  The transmitter is TypeScript. Attempt counters, status codes and the timeout are
  integers in every call the library makes, and are modelled by \<^typ>\<open>int\<close>. Durations take
  part in a multiplication by a growth factor and by \<open>0.25\<close>; they are modelled by exact
  \<^typ>\<open>real\<close> numbers, so the rounding of IEEE doubles, \<open>NaN\<close> and \<open>Infinity\<close> are outside the
  model. A JavaScript string is a list of code units; \<^typ>\<open>char\<close> has eight bits, which covers
  every string the claims speak about (tokens over the base64url alphabet, header values).
\<close>

definition digit_char :: "nat \<Rightarrow> char" where
  "digit_char d = ''0123456789'' ! d"

text \<open>Decimal rendering of an integer, as a template literal renders an integral number.\<close>

function show_nat :: "nat \<Rightarrow> string" where
  "show_nat n = (if n < 10 then [digit_char n] else show_nat (n div 10) @ [digit_char (n mod 10)])"
  by pat_completeness auto
termination
  by (relation "measure id") auto

declare show_nat.simps [simp del]

definition show_int :: "int \<Rightarrow> string" where
  "show_int i = (if i < 0 then CHR ''-'' # show_nat (nat (- i)) else show_nat (nat i))"

section \<open>errors.ts\<close>

text \<open>
  The error classes, each carrying its message. \<open>TypeError\<close> is the platform's error: the
  one \<open>Response.text()\<close> rejects with when the body has been read already.
\<close>

datatype error =
    ValidationError string
  | TransmissionError string
  | TimeoutError string
  | NetworkError string
  | TypeError string

fun message :: "error \<Rightarrow> string" where
  "message (ValidationError m) = m"
| "message (TransmissionError m) = m"
| "message (TimeoutError m) = m"
| "message (NetworkError m) = m"
| "message (TypeError m) = m"

fun isValidationError :: "error \<Rightarrow> bool" where
  "isValidationError (ValidationError m) = True"
| "isValidationError e = False"

text \<open>The constructor of \<open>TimeoutError\<close> appends the timeout to the message it is given.\<close>

definition newTimeoutError :: "string \<Rightarrow> int \<Rightarrow> error" where
  "newTimeoutError m timeout = TimeoutError (m @ '' (timeout: '' @ show_int timeout @ ''ms)'')"

section \<open>types.ts\<close>

record RetryConfig =
  maxAttempts :: int
  retryableStatuses :: "int list"
  backoffMs :: real
  maxBackoffMs :: real
  backoffMultiplier :: real

definition DEFAULT_RETRY_CONFIG :: RetryConfig where
  "DEFAULT_RETRY_CONFIG =
     \<lparr>maxAttempts = 3, retryableStatuses = [429, 502, 503, 504], backoffMs = 1000,
      maxBackoffMs = 10000, backoffMultiplier = 2\<rparr>"

section \<open>retry.ts\<close>

subsection \<open>calculateBackoff\<close>

text \<open>
  \<open>Math.random()\<close> is the first argument: a draw \<open>r\<close> with \<open>0 \<le> r < 1\<close>. The hint is
  \<open>None\<close> for \<open>undefined\<close>. \<open>Math.pow\<close> with an integral exponent is \<open>powi\<close>; the two differ
  only for a zero multiplier below attempt 1, where JavaScript gives \<open>Infinity\<close>.
\<close>

definition calculateBackoff :: "real \<Rightarrow> int \<Rightarrow> RetryConfig \<Rightarrow> real option \<Rightarrow> real" where
  "calculateBackoff r attempt config retryAfterMs =
     (if retryAfterMs \<noteq> None \<and> the retryAfterMs > 0 then min (the retryAfterMs) (maxBackoffMs config)
      else
        let exponentialDelay = backoffMs config * (backoffMultiplier config powi (attempt - 1));
            clampedDelay = min exponentialDelay (maxBackoffMs config);
            jitter = clampedDelay * 0.25;
            minDelay = clampedDelay - jitter;
            maxDelay = clampedDelay + jitter
        in of_int \<lfloor>r * (maxDelay - minDelay) + minDelay\<rfloor>)"

subsection \<open>parseRetryAfter\<close>

text \<open>
  \<open>parseInt(s, 10)\<close> as ECMAScript defines it: leading white space is dropped, one sign is
  read, then the longest run of decimal digits; what follows the digits is ignored, and no
  digit at all gives \<open>NaN\<close> (here \<open>None\<close>). The white space of ECMAScript among the code
  units below 256 is TAB, LF, VT, FF, CR, SP and NBSP.
\<close>

definition isWhiteSpace :: "char \<Rightarrow> bool" where
  "isWhiteSpace c = ((of_char c :: nat) \<in> {9, 10, 11, 12, 13, 32, 160})"

definition isDigit :: "char \<Rightarrow> bool" where
  "isDigit c = (48 \<le> (of_char c :: nat) \<and> (of_char c :: nat) \<le> 57)"

definition digitValue :: "char \<Rightarrow> nat" where
  "digitValue c = of_char c - 48"

definition parseInt :: "string \<Rightarrow> int option" where
  "parseInt inputString =
     (let S = dropWhile isWhiteSpace inputString;
          sign = (if S \<noteq> [] \<and> hd S = CHR ''-'' then - 1 else 1 :: int);
          S' = (if S \<noteq> [] \<and> (hd S = CHR ''+'' \<or> hd S = CHR ''-'') then tl S else S);
          Z = takeWhile isDigit S'
      in if Z = [] then None
         else Some (sign * int (foldl (\<lambda>acc c. 10 * acc + digitValue c) 0 Z)))"

text \<open>
  \<open>new Date(s).getTime()\<close> and \<open>Date.now()\<close> belong to the platform: the date parser is the
  parameter \<open>parseDate\<close> (\<open>None\<close> for an invalid date, else milliseconds since the epoch),
  the clock reading is \<open>now\<close>.
\<close>

definition parseRetryAfter :: "(string \<Rightarrow> int option) \<Rightarrow> int \<Rightarrow> string option \<Rightarrow> int option" where
  "parseRetryAfter parseDate now retryAfterHeader =
     (case retryAfterHeader of
        None \<Rightarrow> None
      | Some h \<Rightarrow>
          if h = [] then None
          else
            (case parseInt h of
               Some delaySeconds \<Rightarrow> Some (delaySeconds * 1000)
             | None \<Rightarrow>
                 (case parseDate h of
                    Some retryDate \<Rightarrow>
                      (let delayMs = retryDate - now in if delayMs > 0 then Some delayMs else None)
                  | None \<Rightarrow> None)))"

subsection \<open>isRetryableStatus, shouldRetry\<close>

definition isRetryableStatus :: "int \<Rightarrow> int list \<Rightarrow> bool" where
  "isRetryableStatus statusCode statuses = (statusCode \<in> set statuses)"

definition shouldRetry :: "int option \<Rightarrow> int \<Rightarrow> RetryConfig \<Rightarrow> bool" where
  "shouldRetry statusCode attempt config =
     (if attempt \<ge> maxAttempts config then False
      else
        (case statusCode of
           None \<Rightarrow> True
         | Some s \<Rightarrow> isRetryableStatus s (retryableStatuses config)))"

section \<open>constants.ts\<close>

definition CONTENT_TYPE_SET :: string where
  "CONTENT_TYPE_SET = ''application/secevent+jwt''"

definition CONTENT_TYPE_JSON :: string where
  "CONTENT_TYPE_JSON = ''application/json''"

definition DEFAULT_USER_AGENT :: string where
  "DEFAULT_USER_AGENT = ''SGNL-Action-Framework/1.0''"

section \<open>utils.ts\<close>

subsection \<open>isValidSET\<close>

text \<open>\<open>String.prototype.split\<close> with a one-character separator: the empty string gives one
  empty part, and every occurrence of the separator starts a new part. The result is never
  empty, so the first branch of the \<open>case\<close> is never taken.\<close>

fun split :: "char \<Rightarrow> string \<Rightarrow> string list" where
  "split sep [] = [[]]"
| "split sep (c # cs) =
     (if c = sep then [] # split sep cs
      else (case split sep cs of [] \<Rightarrow> [[c]] | part # parts \<Rightarrow> (c # part) # parts))"

text \<open>The character class \<open>[A-Za-z0-9_-]\<close> and the anchored pattern \<open>^[A-Za-z0-9_-]+$\<close>.\<close>

definition base64url :: "char \<Rightarrow> bool" where
  "base64url c =
     (let n = (of_char c :: nat)
      in (65 \<le> n \<and> n \<le> 90) \<or> (97 \<le> n \<and> n \<le> 122) \<or> (48 \<le> n \<and> n \<le> 57) \<or> n = 95 \<or> n = 45)"

definition base64urlRegex :: "string \<Rightarrow> bool" where
  "base64urlRegex part = (part \<noteq> [] \<and> list_all base64url part)"

definition isValidSET :: "string \<Rightarrow> bool" where
  "isValidSET jwt =
     (let parts = split CHR ''.'' jwt
      in if length parts \<noteq> 3 then False else list_all base64urlRegex parts)"

subsection \<open>normalizeAuthToken, mergeHeaders\<close>

text \<open>A \<open>Record<string, string>\<close> is an association list: assignment to a key that is
  present keeps its position, a new key goes to the end, as the properties of an object do.\<close>

type_synonym headers = "(string \<times> string) list"

definition normalizeAuthToken :: "string option \<Rightarrow> string option" where
  "normalizeAuthToken token =
     (case token of
        None \<Rightarrow> None
      | Some t \<Rightarrow>
          (if t = [] then None
           else if take 7 t = ''Bearer '' then Some t
           else Some (''Bearer '' @ t)))"

definition assign :: "headers \<Rightarrow> headers \<Rightarrow> headers" where
  "assign target source = foldl (\<lambda>result (key, v). AList.update key v result) target source"

definition mergeHeaders :: "headers \<Rightarrow> headers option \<Rightarrow> headers" where
  "mergeHeaders defaultHeaders customHeaders =
     assign (assign [] defaultHeaders) (case customHeaders of None \<Rightarrow> [] | Some c \<Rightarrow> c)"

subsection \<open>The platform's Response\<close>

text \<open>
  What the network delivered is a \<open>Received\<close> message: status line, headers and the
  full body text. The \<open>Headers\<close> object is the list of pairs its \<open>forEach\<close> visits (names in
  lower case, as the platform keeps them), and \<open>get\<close> is the lookup in it. A \<open>Response\<close>
  object is the message and the flag \<open>bodyUsed\<close>: \<open>text()\<close> sets it, and rejects when it is
  set already. A body that cannot be read, whatever the reason, is a response object with
  the flag set. A response without a body reads as the empty text; that the platform
  leaves its flag unset changes no outcome, since reading it again gives the empty text
  that the fallback gives.
\<close>

record Received =
  resp_status :: int
  resp_statusText :: string
  resp_headers :: headers
  resp_text :: string

record Response =
  received :: Received
  bodyUsed :: bool

definition text_of :: "Response \<Rightarrow> error + (string \<times> Response)" where
  "text_of response =
     (if bodyUsed response then Inl (TypeError ''Body is unusable'')
      else Inr (resp_text (received response), response\<lparr>bodyUsed := True\<rparr>))"

fun str_includes :: "string \<Rightarrow> string \<Rightarrow> bool" where
  "str_includes [] searchString = (searchString = [])"
| "str_includes (c # cs) searchString =
     (take (length searchString) (c # cs) = searchString \<or> str_includes cs searchString)"

datatype json =
    JNull
  | JBool bool
  | JNumber real
  | JString string
  | JArray "json list"
  | JObject "(string \<times> json) list"

datatype ResponseBody = Text string | Parsed json

subsection \<open>parseResponseHeaders, parseResponseBody\<close>

definition parseResponseHeaders :: "headers \<Rightarrow> headers" where
  "parseResponseHeaders hs = foldl (\<lambda>result (key, v). AList.update key v result) [] hs"

text \<open>
  \<open>JSON.parse\<close> is the platform's: the parameter \<open>JSON_parse\<close>, \<open>None\<close> where it throws a
  \<open>SyntaxError\<close>. The function returns the body and the response object as \<open>text()\<close> left it.
\<close>

definition parseResponseBody ::
  "(string \<Rightarrow> json option) \<Rightarrow> Response \<Rightarrow> bool \<Rightarrow> error + (ResponseBody \<times> Response)" where
  "parseResponseBody JSON_parse response parseJson =
     (case text_of response of
        Inl e \<Rightarrow> Inl e
      | Inr (txt, response') \<Rightarrow>
          if \<not> parseJson \<or> txt = [] then Inr (Text txt, response')
          else
            (case map_of (resp_headers (received response)) ''content-type'' of
               None \<Rightarrow> Inr (Text txt, response')
             | Some contentType \<Rightarrow>
                 if str_includes contentType ''application/json'' then
                   (case JSON_parse txt of
                      Some v \<Rightarrow> Inr (Parsed v, response')
                    | None \<Rightarrow> Inr (Text txt, response'))
                 else Inr (Text txt, response')))"

section \<open>types.ts: options and results\<close>

text \<open>
  \<open>TransmitOptions\<close> and the \<open>RetryConfig\<close> inside it have optional fields only: a field
  that is absent is \<open>None\<close>. \<open>RetryConfig\<close> above is \<open>Required<RetryConfig>\<close>.
\<close>

record RetryOptions =
  opt_maxAttempts :: "int option"
  opt_retryableStatuses :: "int list option"
  opt_backoffMs :: "real option"
  opt_maxBackoffMs :: "real option"
  opt_backoffMultiplier :: "real option"

record TransmitOptions =
  opt_authToken :: "string option"
  opt_headers :: "headers option"
  opt_timeout :: "int option"
  opt_retry :: "RetryOptions option"
  opt_parseResponse :: "bool option"
  opt_validateStatus :: "(int \<Rightarrow> bool) option"

definition noRetryOptions :: RetryOptions where
  "noRetryOptions =
     \<lparr>opt_maxAttempts = None, opt_retryableStatuses = None, opt_backoffMs = None,
      opt_maxBackoffMs = None, opt_backoffMultiplier = None\<rparr>"

definition noOptions :: TransmitOptions where
  "noOptions =
     \<lparr>opt_authToken = None, opt_headers = None, opt_timeout = None, opt_retry = None,
      opt_parseResponse = None, opt_validateStatus = None\<rparr>"

definition DEFAULT_timeout :: int where
  "DEFAULT_timeout = 30000"

definition DEFAULT_parseResponse :: bool where
  "DEFAULT_parseResponse = True"

definition DEFAULT_validateStatus :: "int \<Rightarrow> bool" where
  "DEFAULT_validateStatus s = (s < 400)"

datatype ResultStatus = success | failed

record TransmitResult =
  status :: ResultStatus
  statusCode :: int
  body :: ResponseBody
  headers :: headers
  error :: "string option"
  retryable :: "bool option"

section \<open>transmitter.ts\<close>

subsection \<open>The merged options and the request\<close>

record MergedOptions =
  authToken :: "string option"
  extraHeaders :: headers
  timeout :: int
  parseResponse :: bool
  validateStatus :: "int \<Rightarrow> bool"
  retry :: RetryConfig

definition mergeRetry :: "RetryOptions option \<Rightarrow> RetryConfig" where
  "mergeRetry r =
     (let given = (case r of None \<Rightarrow> noRetryOptions | Some g \<Rightarrow> g);
          d = DEFAULT_RETRY_CONFIG
      in \<lparr>maxAttempts = (case opt_maxAttempts given of None \<Rightarrow> maxAttempts d | Some v \<Rightarrow> v),
          retryableStatuses =
            (case opt_retryableStatuses given of None \<Rightarrow> retryableStatuses d | Some v \<Rightarrow> v),
          backoffMs = (case opt_backoffMs given of None \<Rightarrow> backoffMs d | Some v \<Rightarrow> v),
          maxBackoffMs = (case opt_maxBackoffMs given of None \<Rightarrow> maxBackoffMs d | Some v \<Rightarrow> v),
          backoffMultiplier =
            (case opt_backoffMultiplier given of None \<Rightarrow> backoffMultiplier d | Some v \<Rightarrow> v)\<rparr>)"

definition mergeOptions :: "TransmitOptions \<Rightarrow> MergedOptions" where
  "mergeOptions options =
     \<lparr>authToken = opt_authToken options,
      extraHeaders = (case opt_headers options of None \<Rightarrow> [] | Some h \<Rightarrow> h),
      timeout = (case opt_timeout options of None \<Rightarrow> DEFAULT_timeout | Some t \<Rightarrow> t),
      parseResponse =
        (case opt_parseResponse options of None \<Rightarrow> DEFAULT_parseResponse | Some b \<Rightarrow> b),
      validateStatus =
        (case opt_validateStatus options of None \<Rightarrow> DEFAULT_validateStatus | Some f \<Rightarrow> f),
      retry = mergeRetry (opt_retry options)\<rparr>"

record Request =
  url :: string
  httpMethod :: string
  requestHeaders :: headers
  requestBody :: string

definition buildHeaders :: "MergedOptions \<Rightarrow> headers" where
  "buildHeaders mergedOptions =
     (let baseHeaders =
            [(''Content-Type'', CONTENT_TYPE_SET), (''Accept'', CONTENT_TYPE_JSON),
             (''User-Agent'', DEFAULT_USER_AGENT)];
          baseHeaders' =
            (case normalizeAuthToken (authToken mergedOptions) of
               None \<Rightarrow> baseHeaders
             | Some t \<Rightarrow> AList.update ''Authorization'' t baseHeaders)
      in mergeHeaders baseHeaders' (Some (extraHeaders mergedOptions)))"

text \<open>What every attempt hands to \<open>fetch\<close>: a POST of the token to the parsed URL.\<close>

definition buildRequest :: "MergedOptions \<Rightarrow> string \<Rightarrow> string \<Rightarrow> Request" where
  "buildRequest mergedOptions parsedUrl jwt =
     \<lparr>url = parsedUrl, httpMethod = ''POST'', requestHeaders = buildHeaders mergedOptions,
      requestBody = jwt\<rparr>"

subsection \<open>The platform\<close>

text \<open>
  What a call of \<open>transmitSET\<close> reads from outside. \<open>fetch\<close> gets the request and the
  number of the attempt that dispatches it (the loop dispatches once per attempt, so this
  is the number of the call), and either resolves or rejects. \<open>Resolved m\<close> is a new
  \<open>Response\<close> whose body can be read. \<open>Unreadable m\<close> is a \<open>Response\<close> with the status line and
  headers of \<open>m\<close> whose \<open>text()\<close> rejects: its body has been read before (the mock of the
  tests, \<open>mockResolvedValue\<close>, resolves every call with one and the same object), or the
  stream breaks while it is read; it is the response object with \<open>bodyUsed\<close> set, and the
  message of the rejection is the one of a consumed body. \<open>fetch\<close> rejects with an
  \<open>AbortError\<close> when the timer aborted the request, with another \<open>Error\<close> and its message,
  or with a value that is no \<open>Error\<close>. \<open>random\<close> and \<open>now\<close> are \<open>Math.random()\<close> and
  \<open>Date.now()\<close> as read during that attempt; \<open>URL_parse\<close> is \<open>new URL(url).toString()\<close>,
  \<open>None\<close> where the constructor throws.
\<close>

datatype Thrown = AbortError | ThrownError string | ThrownOther

datatype FetchResult = Resolved Received | Unreadable Received | Rejected Thrown

record Platform =
  fetch :: "Request \<Rightarrow> int \<Rightarrow> FetchResult"
  random :: "int \<Rightarrow> real"
  now :: "int \<Rightarrow> int"
  parseDate :: "string \<Rightarrow> int option"
  JSON_parse :: "string \<Rightarrow> json option"
  URL_parse :: "string \<Rightarrow> string option"

subsection \<open>The attempt loop\<close>

text \<open>
  The loop's variables, and what it did that can be seen from outside: the number of
  dispatches and the waits it asked \<open>delay\<close> for, in order.
\<close>

record LoopState =
  lastError :: "error option"
  lastResponse :: "Response option"
  dispatches :: nat
  waits :: "real list"

definition initialState :: LoopState where
  "initialState = \<lparr>lastError = None, lastResponse = None, dispatches = 0, waits = []\<rparr>"

datatype Step = Return "error + TransmitResult" LoopState | Continue LoopState

text \<open>The inner \<open>catch\<close> first names the error it caught.\<close>

fun caught :: "int \<Rightarrow> Thrown \<Rightarrow> error" where
  "caught t AbortError = newTimeoutError ''Request timed out'' t"
| "caught t (ThrownError m) = NetworkError (''Network error: '' @ m)"
| "caught t ThrownOther = NetworkError ''Unknown network error''"

text \<open>
  The rest of the inner \<open>catch\<close>. When the policy denies the retry it throws \<open>lastError\<close>;
  that throw is inside the outer \<open>try\<close>, whose \<open>catch\<close> rethrows a \<open>ValidationError\<close> only,
  stores anything else in \<open>lastError\<close> and lets the loop go on to its next iteration.
\<close>

definition innerCatch :: "Platform \<Rightarrow> MergedOptions \<Rightarrow> int \<Rightarrow> error \<Rightarrow> LoopState \<Rightarrow> Step" where
  "innerCatch P mergedOptions attempt e st =
     (let st1 = st\<lparr>lastError := Some e\<rparr>
      in if \<not> shouldRetry None attempt (retry mergedOptions) then
           (if isValidationError e then Return (Inl e) st1
            else Continue (st1\<lparr>lastError := Some e\<rparr>))
         else
           (let backoff = calculateBackoff (random P attempt) attempt (retry mergedOptions) None
            in Continue (st1\<lparr>waits := waits st1 @ [backoff]\<rparr>)))"

text \<open>The \<open>try\<close> block from the point where \<open>fetch\<close> has resolved with \<open>response\<close>.\<close>

definition onResponse :: "Platform \<Rightarrow> MergedOptions \<Rightarrow> int \<Rightarrow> Response \<Rightarrow> LoopState \<Rightarrow> Step" where
  "onResponse P mergedOptions attempt response st0 =
     (let m = received response;
          st1 = st0\<lparr>lastResponse := Some response\<rparr>;
          responseHeaders = parseResponseHeaders (resp_headers m)
      in case parseResponseBody (JSON_parse P) response (parseResponse mergedOptions) of
           Inl e \<Rightarrow>
             innerCatch P mergedOptions attempt
               (caught (timeout mergedOptions) (ThrownError (message e))) st1
         | Inr (responseBody, response') \<Rightarrow>
             (let st2 = st1\<lparr>lastResponse := Some response'\<rparr>
              in if validateStatus mergedOptions (resp_status m) then
                   Return (Inr \<lparr>status = success, statusCode = resp_status m,
                                body = responseBody, headers = responseHeaders,
                                error = None, retryable = None\<rparr>) st2
                 else if \<not> shouldRetry (Some (resp_status m)) attempt (retry mergedOptions) then
                   Return (Inr \<lparr>status = failed, statusCode = resp_status m,
                                body = responseBody, headers = responseHeaders,
                                error = Some (''HTTP '' @ show_int (resp_status m) @ '': ''
                                               @ resp_statusText m),
                                retryable = Some (resp_status m
                                                  \<in> set (retryableStatuses (retry mergedOptions)))\<rparr>)
                          st2
                 else
                   (let retryAfterMs =
                          parseRetryAfter (parseDate P) (now P attempt)
                            (map_of responseHeaders ''retry-after'');
                        backoff =
                          calculateBackoff (random P attempt) attempt (retry mergedOptions)
                            (map_option real_of_int retryAfterMs)
                    in Continue (st2\<lparr>waits := waits st2 @ [backoff]\<rparr>))))"

text \<open>One iteration of the loop.\<close>

definition attemptStep :: "Platform \<Rightarrow> MergedOptions \<Rightarrow> Request \<Rightarrow> int \<Rightarrow> LoopState \<Rightarrow> Step" where
  "attemptStep P mergedOptions req attempt st =
     (let st0 = st\<lparr>dispatches := Suc (dispatches st)\<rparr>
      in case fetch P req attempt of
           Rejected t \<Rightarrow> innerCatch P mergedOptions attempt (caught (timeout mergedOptions) t) st0
         | Resolved m \<Rightarrow>
             onResponse P mergedOptions attempt \<lparr>received = m, bodyUsed = False\<rparr> st0
         | Unreadable m \<Rightarrow>
             onResponse P mergedOptions attempt \<lparr>received = m, bodyUsed = True\<rparr> st0)"

text \<open>After the loop: the last response, if there is one, else the last error.\<close>

definition afterLoop :: "Platform \<Rightarrow> MergedOptions \<Rightarrow> LoopState \<Rightarrow> (error + TransmitResult) \<times> LoopState" where
  "afterLoop P mergedOptions st =
     (case lastResponse st of
        Some lr \<Rightarrow>
          (let responseHeaders = parseResponseHeaders (resp_headers (received lr));
               http = ''HTTP '' @ show_int (resp_status (received lr)) @ '': ''
                       @ resp_statusText (received lr);
               parsed = parseResponseBody (JSON_parse P) lr (parseResponse mergedOptions);
               responseBody = (case parsed of Inl e \<Rightarrow> Text [] | Inr (b, lr') \<Rightarrow> b);
               st' = (case parsed of Inl e \<Rightarrow> st | Inr (b, lr') \<Rightarrow> st\<lparr>lastResponse := Some lr'\<rparr>)
           in (Inr \<lparr>status = failed, statusCode = resp_status (received lr),
                    body = responseBody, headers = responseHeaders,
                    error = Some (case lastError st of
                                    None \<Rightarrow> http
                                  | Some e \<Rightarrow> if message e = [] then http else message e),
                    retryable = Some True\<rparr>, st'))
      | None \<Rightarrow>
          (Inl (case lastError st of
                  Some e \<Rightarrow> e
                | None \<Rightarrow> TransmissionError ''Failed to transmit SET after all retry attempts''),
           st))"

function attemptLoop ::
  "Platform \<Rightarrow> MergedOptions \<Rightarrow> Request \<Rightarrow> int \<Rightarrow> LoopState \<Rightarrow> (error + TransmitResult) \<times> LoopState" where
  "attemptLoop P mergedOptions req attempt st =
     (if attempt \<le> maxAttempts (retry mergedOptions) then
        (case attemptStep P mergedOptions req attempt st of
           Return res st' \<Rightarrow> (res, st')
         | Continue st' \<Rightarrow> attemptLoop P mergedOptions req (attempt + 1) st')
      else afterLoop P mergedOptions st)"
  by pat_completeness auto
termination
  by (relation "measure (\<lambda>(P, mergedOptions, req, attempt, st).
                  nat (maxAttempts (retry mergedOptions) + 1 - attempt))") auto

declare attemptLoop.simps [simp del]

subsection \<open>transmitSET\<close>

text \<open>The result is what the call returns (\<open>Inr\<close>) or throws (\<open>Inl\<close>), with the final loop
  state, whose \<open>dispatches\<close> counts the calls of \<open>fetch\<close>.\<close>

definition transmitSET ::
  "Platform \<Rightarrow> string \<Rightarrow> string \<Rightarrow> TransmitOptions \<Rightarrow> (error + TransmitResult) \<times> LoopState" where
  "transmitSET P jwt url_string options =
     (if \<not> isValidSET jwt then
        (Inl (ValidationError
               ''Invalid SET format: JWT must be in format header.payload.signature''),
         initialState)
      else
        (case URL_parse P url_string of
           None \<Rightarrow> (Inl (ValidationError (''Invalid URL: '' @ url_string)), initialState)
         | Some parsedUrl \<Rightarrow>
             (let mergedOptions = mergeOptions options
              in attemptLoop P mergedOptions (buildRequest mergedOptions parsedUrl jwt)
                   1 initialState)))"

section \<open>Stating the claims\<close>

text \<open>
  An attempt before the last one is followed by another attempt when its dispatch is
  rejected, when the body of its response cannot be read, or when it resolves with a
  status that is not accepted and is one of \<open>retryableStatuses\<close>.
\<close>

abbreviation goesOn :: "MergedOptions \<Rightarrow> FetchResult \<Rightarrow> bool" where
  "goesOn mo res \<equiv>
     (case res of
        Rejected t \<Rightarrow> True
      | Unreadable m \<Rightarrow> True
      | Resolved m \<Rightarrow> \<not> validateStatus mo (resp_status m) \<and>
                       resp_status m \<in> set (retryableStatuses (retry mo)))"

subsection \<open>Fixtures of the test suite\<close>

text \<open>
  The tests run \<open>transmitSET\<close> against a mocked \<open>fetch\<close>. \<open>mockResponse\<close> is
  \<open>new Response(text, {status})\<close>: no status text, and the content type the platform gives a
  string body. \<open>mockPlatform\<close> answers each attempt from a script, draws \<open>1/2\<close>, parses no
  date, accepts the URL of the tests, and parses the one JSON text of the examples,
  \<open>{"a":1}\<close> (the double quote is the character 0x22).
\<close>

definition json_example_text :: string where
  "json_example_text = ''{'' @ [CHR 0x22] @ ''a'' @ [CHR 0x22] @ '':1}''"

definition json_example_parser :: "string \<Rightarrow> json option" where
  "json_example_parser s =
     (if s = json_example_text then Some (JObject [(''a'', JNumber 1)]) else None)"

definition mockResponse :: "int \<Rightarrow> string \<Rightarrow> Received" where
  "mockResponse s txt =
     \<lparr>resp_status = s, resp_statusText = [],
      resp_headers = [(''content-type'', ''text/plain;charset=UTF-8'')], resp_text = txt\<rparr>"


definition mockPlatform :: "(int \<Rightarrow> FetchResult) \<Rightarrow> Platform" where
  "mockPlatform script =
     \<lparr>fetch = (\<lambda>req attempt. script attempt), random = (\<lambda>attempt. 1 / 2), now = (\<lambda>attempt. 0),
      parseDate = (\<lambda>s. None), JSON_parse = json_example_parser,
      URL_parse = (\<lambda>u. if u = ''https://example.com/events'' then Some u else None)\<rparr>"

definition retryOptions :: "int \<Rightarrow> TransmitOptions" where
  "retryOptions n =
     noOptions\<lparr>opt_retry := Some (noRetryOptions\<lparr>opt_maxAttempts := Some n, opt_backoffMs := Some 10\<rparr>)\<rparr>"

definition always :: "FetchResult \<Rightarrow> int \<Rightarrow> FetchResult" where
  "always res attempt = res"

definition firstThen :: "FetchResult \<Rightarrow> FetchResult \<Rightarrow> int \<Rightarrow> FetchResult" where
  "firstThen res rest attempt = (if attempt = 1 then res else rest)"


section \<open>Retry policy\<close>

lemma shouldRetry_eq:
  "shouldRetry sc attempt config =
     (attempt < maxAttempts config \<and>
      (case sc of None \<Rightarrow> True | Some s \<Rightarrow> s \<in> set (retryableStatuses config)))"
  by (simp add: shouldRetry_def isRetryableStatus_def split: option.splits)

text \<open>
  Claim C6. \<open>shouldRetry\<close> is false once the attempt has reached \<open>maxAttempts\<close>; below it,
  an absent status (a transport failure) is retried, and a present status is retried exactly
  when it is one of \<open>retryableStatuses\<close>. With three attempts and the statuses 429, 502, 503,
  504: 503 is retried at attempts 1 and 2 and at no attempt from 3 on, an absent status is
  retried at attempts 1 and 2, and 404 at no attempt.
\<close>

theorem shouldRetry_policy:
  "(maxAttempts config \<le> attempt \<longrightarrow> \<not> shouldRetry sc attempt config) \<and>
   (attempt < maxAttempts config \<longrightarrow> shouldRetry None attempt config) \<and>
   (attempt < maxAttempts config \<longrightarrow>
      shouldRetry (Some s) attempt config = (s \<in> set (retryableStatuses config))) \<and>
   (maxAttempts config = 3 \<and> retryableStatuses config = [429, 502, 503, 504] \<longrightarrow>
      shouldRetry (Some 503) 1 config \<and> shouldRetry (Some 503) 2 config \<and>
      (\<forall>a\<ge>3. \<not> shouldRetry (Some 503) a config) \<and>
      shouldRetry None 1 config \<and> shouldRetry None 2 config \<and>
      (\<forall>a. \<not> shouldRetry (Some 404) a config))"
  by (simp add: shouldRetry_eq)

theorem shouldRetry_policy_witness:
  "\<not> shouldRetry (Some 503) 3 DEFAULT_RETRY_CONFIG \<and>
   shouldRetry None 2 DEFAULT_RETRY_CONFIG \<and>
   shouldRetry (Some 503) 2 DEFAULT_RETRY_CONFIG \<and>
   \<not> shouldRetry (Some 404) 1 DEFAULT_RETRY_CONFIG \<and>
   \<not> shouldRetry (Some 503) 7 DEFAULT_RETRY_CONFIG"
  using shouldRetry_policy [where config = DEFAULT_RETRY_CONFIG and attempt = 3 and sc = "Some 503"]
        shouldRetry_policy [where config = DEFAULT_RETRY_CONFIG and attempt = 2 and s = 503]
  by (simp add: DEFAULT_RETRY_CONFIG_def)

section \<open>Backoff\<close>

text \<open>
  Claim C7. With a positive hint \<open>calculateBackoff\<close> returns the smaller of the hint and
  \<open>maxBackoffMs\<close>, whatever the draw: 5000 for the hint 5000 and 10000 for the hint 20000 when
  the maximum is 10000. Without a positive hint, for an attempt from 1 on and a draw \<open>r\<close> in
  \<open>[0, 1)\<close>, it returns the floor of a value \<open>v\<close> that is at most a quarter of the clamped delay
  away from the clamped delay \<open>min (backoffMs * backoffMultiplier ^ (attempt - 1)) maxBackoffMs\<close>.
  A base of zero gives the wait zero at every attempt and every draw, for a configuration
  that keeps the invariant of the data model, \<open>backoffMs \<le> maxBackoffMs\<close>. Durations are exact
  reals here.
\<close>

theorem calculateBackoff_spec:
  "(0 < h \<longrightarrow> calculateBackoff r attempt config (Some h) = min h (maxBackoffMs config)) \<and>
   (maxBackoffMs config = 10000 \<longrightarrow>
      calculateBackoff r attempt config (Some 5000) = 5000 \<and>
      calculateBackoff r attempt config (Some 20000) = 10000) \<and>
   ((hint = None \<or> the hint \<le> 0) \<and> 1 \<le> attempt \<and> 0 \<le> r \<and> r < 1 \<longrightarrow>
      (\<exists>v. calculateBackoff r attempt config hint = of_int \<lfloor>v\<rfloor> \<and>
           \<bar>v - min (backoffMs config * backoffMultiplier config ^ nat (attempt - 1))
                     (maxBackoffMs config)\<bar>
             \<le> 0.25 * \<bar>min (backoffMs config * backoffMultiplier config ^ nat (attempt - 1))
                            (maxBackoffMs config)\<bar>)) \<and>
   ((hint = None \<or> the hint \<le> 0) \<and> backoffMs config = 0 \<and>
      backoffMs config \<le> maxBackoffMs config \<longrightarrow>
      calculateBackoff r attempt config hint = 0)"
proof (intro conjI impI)
  assume "0 < h"
  then show "calculateBackoff r attempt config (Some h) = min h (maxBackoffMs config)"
    by (simp add: calculateBackoff_def)
next
  assume "maxBackoffMs config = 10000"
  then show "calculateBackoff r attempt config (Some 5000) = 5000"
    by (simp add: calculateBackoff_def)
next
  assume "maxBackoffMs config = 10000"
  then show "calculateBackoff r attempt config (Some 20000) = 10000"
    by (simp add: calculateBackoff_def)
next
  assume a: "(hint = None \<or> the hint \<le> 0) \<and> 1 \<le> attempt \<and> 0 \<le> r \<and> r < 1"
  define c where "c = min (backoffMs config * backoffMultiplier config ^ nat (attempt - 1)) (maxBackoffMs config)"
  define v where "v = r * ((c + c * 0.25) - (c - c * 0.25)) + (c - c * 0.25)"
  have nohint: "\<not> (hint \<noteq> None \<and> the hint > 0)" using a by auto
  have p: "backoffMultiplier config powi (attempt - 1) = backoffMultiplier config ^ nat (attempt - 1)"
    using a by (simp add: power_int_def)
  have 1: "calculateBackoff r attempt config hint = of_int \<lfloor>v\<rfloor>"
    using nohint by (auto simp add: calculateBackoff_def Let_def p c_def v_def)
  have "v - c = (r / 2 - 1 / 4) * c" by (simp add: v_def algebra_simps)
  then have e: "\<bar>v - c\<bar> = \<bar>r / 2 - 1 / 4\<bar> * \<bar>c\<bar>" by (simp add: abs_mult)
  have "\<bar>r / 2 - 1 / 4\<bar> \<le> 1 / 4" using a by linarith
  then have "\<bar>r / 2 - 1 / 4\<bar> * \<bar>c\<bar> \<le> 1 / 4 * \<bar>c\<bar>"
    by (rule mult_right_mono) simp
  with e have 2: "\<bar>v - c\<bar> \<le> 0.25 * \<bar>c\<bar>" by simp
  from 1 2 show "\<exists>v. calculateBackoff r attempt config hint = of_int \<lfloor>v\<rfloor> \<and>
           \<bar>v - min (backoffMs config * backoffMultiplier config ^ nat (attempt - 1))
                     (maxBackoffMs config)\<bar>
             \<le> 0.25 * \<bar>min (backoffMs config * backoffMultiplier config ^ nat (attempt - 1))
                            (maxBackoffMs config)\<bar>"
    unfolding c_def by blast
next
  assume a: "(hint = None \<or> the hint \<le> 0) \<and> backoffMs config = 0 \<and>
      backoffMs config \<le> maxBackoffMs config"
  have nohint: "\<not> (hint \<noteq> None \<and> the hint > 0)" using a by auto
  show "calculateBackoff r attempt config hint = 0"
    using nohint a by (auto simp add: calculateBackoff_def Let_def)
qed

theorem calculateBackoff_spec_witness:
  "calculateBackoff (1/2) 3 DEFAULT_RETRY_CONFIG None = 4000 \<and>
   calculateBackoff 0 1 DEFAULT_RETRY_CONFIG None = 750 \<and>
   calculateBackoff (1/2) 1 DEFAULT_RETRY_CONFIG (Some 5000) = 5000 \<and>
   calculateBackoff (1/2) 1 DEFAULT_RETRY_CONFIG (Some 20000) = 10000 \<and>
   calculateBackoff (1/2) 4 (DEFAULT_RETRY_CONFIG\<lparr>backoffMs := 0\<rparr>) None = 0"
  using calculateBackoff_spec [where config = DEFAULT_RETRY_CONFIG and r = "1/2" and attempt = 1 and h = 5000 and hint = None]
        calculateBackoff_spec [where config = "DEFAULT_RETRY_CONFIG\<lparr>backoffMs := 0\<rparr>" and r = "1/2" and attempt = 4 and hint = None]
  by (simp add: DEFAULT_RETRY_CONFIG_def calculateBackoff_def power_int_def)

section \<open>The Retry-After header\<close>

text \<open>What \<open>parseRetryAfter\<close> does on the headers the protocol allows: nothing for an absent
  or empty header, seconds times 1000 for a run of digits, and for a string that starts
  with a letter (every HTTP-date starts with the name of a day) the distance to the date
  when it is in the future.\<close>

lemma parseRetryAfter_absent:
  "parseRetryAfter pd n None = None \<and> parseRetryAfter pd n (Some []) = None"
  by (simp add: parseRetryAfter_def)

lemma parseInt_digits:
  assumes "ds \<noteq> []" "list_all isDigit ds"
  shows "parseInt ds = Some (int (foldl (\<lambda>acc c. 10 * acc + digitValue c) 0 ds))"
proof -
  from assms have nw: "\<not> isWhiteSpace (hd ds)" and ns: "hd ds \<noteq> CHR ''+''" "hd ds \<noteq> CHR ''-''"
    by (cases ds; auto simp: isWhiteSpace_def isDigit_def)+
  from assms nw have d: "dropWhile isWhiteSpace ds = ds" by (cases ds) auto
  from assms have t: "takeWhile isDigit ds = ds" by (simp add: list_all_iff)
  show ?thesis using assms ns by (simp add: parseInt_def d t)
qed

lemma parseRetryAfter_seconds:
  assumes "ds \<noteq> []" "list_all isDigit ds"
  shows "parseRetryAfter pd n (Some ds) = Some (int (foldl (\<lambda>acc c. 10 * acc + digitValue c) 0 ds) * 1000)"
  using assms by (simp add: parseRetryAfter_def parseInt_digits)

lemma parseInt_no_number:
  assumes "\<not> isWhiteSpace c" "\<not> isDigit c" "c \<noteq> CHR ''+''" "c \<noteq> CHR ''-''"
  shows "parseInt (c # cs) = None"
  using assms by (simp add: parseInt_def)

lemma parseRetryAfter_date:
  assumes "\<not> isWhiteSpace c" "\<not> isDigit c" "c \<noteq> CHR ''+''" "c \<noteq> CHR ''-''"
  shows "parseRetryAfter pd n (Some (c # cs)) =
           (case pd (c # cs) of None \<Rightarrow> None | Some t \<Rightarrow> if t - n > 0 then Some (t - n) else None)"
  using assms by (simp add: parseRetryAfter_def parseInt_no_number Let_def split: option.splits)

text \<open>
  Claim C8. The claim sends every string that is neither a number nor a date to "no hint",
  and every past date to "no hint". \<open>parseInt\<close> reads a leading run of digits and ignores
  the rest, so the code takes \<open>5x\<close> for five seconds, and the ISO date
  \<open>2020-01-01T00:00:00Z\<close>, a date in the past that every date parser accepts, for 2020
  seconds, whatever the date parser or the clock say.
\<close>

theorem parseRetryAfter_digit_prefix:
  "parseRetryAfter pd n (Some ''2020-01-01T00:00:00Z'') = Some 2020000 \<and>
   parseRetryAfter pd n (Some ''5x'') = Some 5000"
  by (simp add: parseRetryAfter_def parseInt_def isWhiteSpace_def isDigit_def digitValue_def)

section \<open>Token validation\<close>

lemma split_nonempty: "split sep s \<noteq> []"
  by (induction s) (auto split: list.splits)

lemma split_without_sep: "sep \<notin> set a \<Longrightarrow> split sep a = [a]"
  by (induction a) auto

lemma split_at_sep: "sep \<notin> set a \<Longrightarrow> split sep (a @ sep # rest) = a # split sep rest"
  by (induction a) auto

lemma split_single: "split sep s = [a] \<Longrightarrow> s = a"
proof (induction s arbitrary: a)
  case Nil
  then show ?case by simp
next
  case (Cons c cs)
  show ?case
  proof (cases "c = sep")
    case True
    with Cons.prems show ?thesis by (simp add: split_nonempty)
  next
    case False
    with Cons.prems obtain p where p: "split sep cs = [p]" "a = c # p"
      using split_nonempty [of sep cs] by (auto split: list.splits)
    from Cons.IH [OF p(1)] p(2) show ?thesis by simp
  qed
qed

lemma split_more:
  "split sep s = a # p # ps \<Longrightarrow> \<exists>rest. s = a @ sep # rest \<and> split sep rest = p # ps"
proof (induction s arbitrary: a)
  case Nil
  then show ?case by simp
next
  case (Cons c cs)
  show ?case
  proof (cases "c = sep")
    case True
    with Cons.prems show ?thesis by auto
  next
    case False
    with Cons.prems obtain a' where a': "split sep cs = a' # p # ps" "a = c # a'"
      by (auto split: list.splits)
    from Cons.IH [OF a'(1)] obtain rest where "cs = a' @ sep # rest" "split sep rest = p # ps"
      by blast
    with a'(2) show ?thesis by auto
  qed
qed

lemma split3:
  assumes "split sep s = [a, b, c]"
  shows "s = a @ sep # b @ sep # c"
proof -
  from split_more [OF assms] obtain r1 where r1: "s = a @ sep # r1" "split sep r1 = [b, c]" by blast
  from split_more [OF r1(2)] obtain r2 where r2: "r1 = b @ sep # r2" "split sep r2 = [c]" by blast
  from split_single [OF r2(2)] have "r2 = c" .
  with r1 r2 show ?thesis by simp
qed

lemma dot_not_base64url: "\<not> base64url CHR ''.''"
  by (simp add: base64url_def)

lemma isValidSET_iff:
  "isValidSET jwt \<longleftrightarrow>
     (\<exists>a b c. jwt = a @ ''.'' @ b @ ''.'' @ c \<and> a \<noteq> [] \<and> b \<noteq> [] \<and> c \<noteq> [] \<and>
        (\<forall>ch\<in>set (a @ b @ c). base64url ch))"
proof
  assume v: "isValidSET jwt"
  then have len: "length (split CHR ''.'' jwt) = 3" and all: "list_all base64urlRegex (split CHR ''.'' jwt)"
    by (auto simp: isValidSET_def Let_def split: if_splits)
  from len obtain a b c where s: "split CHR ''.'' jwt = [a, b, c]"
    by (auto simp: length_Suc_conv numeral_3_eq_3)
  from split3 [OF s] have "jwt = a @ ''.'' @ b @ ''.'' @ c" by simp
  moreover from all s have "a \<noteq> [] \<and> b \<noteq> [] \<and> c \<noteq> [] \<and> (\<forall>ch\<in>set (a @ b @ c). base64url ch)"
    by (auto simp: base64urlRegex_def list_all_iff)
  ultimately show "\<exists>a b c. jwt = a @ ''.'' @ b @ ''.'' @ c \<and> a \<noteq> [] \<and> b \<noteq> [] \<and> c \<noteq> [] \<and>
        (\<forall>ch\<in>set (a @ b @ c). base64url ch)" by blast
next
  assume "\<exists>a b c. jwt = a @ ''.'' @ b @ ''.'' @ c \<and> a \<noteq> [] \<and> b \<noteq> [] \<and> c \<noteq> [] \<and>
        (\<forall>ch\<in>set (a @ b @ c). base64url ch)"
  then obtain a b c where j: "jwt = a @ ''.'' @ b @ ''.'' @ c" and ne: "a \<noteq> []" "b \<noteq> []" "c \<noteq> []"
    and all: "\<forall>ch\<in>set (a @ b @ c). base64url ch" by blast
  from all have nd: "CHR ''.'' \<notin> set a" "CHR ''.'' \<notin> set b" "CHR ''.'' \<notin> set c"
    using dot_not_base64url by auto
  have "split CHR ''.'' jwt = [a, b, c]"
    using nd by (simp add: j split_at_sep split_without_sep)
  with ne all show "isValidSET jwt"
    by (auto simp: isValidSET_def base64urlRegex_def list_all_iff)
qed

lemma valid_example: "isValidSET ''header.payload.signature''"
  by code_simp

lemma invalid_example:
  "\<not> isValidSET ''part1..part3''" "\<not> isValidSET ''part=1.part2.part3''"
  "\<not> isValidSET ''part1.part2''"
  by code_simp+

text \<open>
  Claim C10. \<open>isValidSET\<close> accepts exactly the strings \<open>a.b.c\<close> whose three segments are
  not empty and consist of characters of the class \<open>[A-Za-z0-9_-]\<close> (so none holds a dot,
  and the segments are the three parts \<open>split\<close> finds). For a token it rejects,
  \<open>transmitSET\<close> throws the \<open>ValidationError\<close> and has dispatched nothing.
\<close>

theorem isValidSET_spec:
  "(isValidSET jwt \<longleftrightarrow>
      (\<exists>a b c. jwt = a @ ''.'' @ b @ ''.'' @ c \<and> a \<noteq> [] \<and> b \<noteq> [] \<and> c \<noteq> [] \<and>
         (\<forall>ch\<in>set (a @ b @ c). base64url ch))) \<and>
   (\<not> isValidSET jwt \<longrightarrow>
      fst (transmitSET P jwt u options) =
        Inl (ValidationError
              ''Invalid SET format: JWT must be in format header.payload.signature'') \<and>
      dispatches (snd (transmitSET P jwt u options)) = 0)"
  using isValidSET_iff [of jwt] by (simp add: transmitSET_def initialState_def)

theorem isValidSET_spec_witness:
  "isValidSET ''header.payload.signature'' \<and> \<not> isValidSET ''part1..part3'' \<and>
   \<not> isValidSET ''part=1.part2.part3'' \<and>
   fst (transmitSET (mockPlatform (always (Resolved (mockResponse 200 []))))
          ''part1.part2'' ''https://example.com/events'' noOptions) =
     Inl (ValidationError ''Invalid SET format: JWT must be in format header.payload.signature'') \<and>
   dispatches (snd (transmitSET (mockPlatform (always (Resolved (mockResponse 200 []))))
          ''part1.part2'' ''https://example.com/events'' noOptions)) = 0"
  using isValidSET_spec [where jwt = "''part1.part2''" and u = "''https://example.com/events''"
      and options = noOptions and P = "mockPlatform (always (Resolved (mockResponse 200 [])))"]
    valid_example invalid_example
  by simp

section \<open>Response bodies\<close>



lemma parse_fresh:
  "\<exists>b. parseResponseBody J \<lparr>received = m, bodyUsed = False\<rparr> flag
         = Inr (b, \<lparr>received = m, bodyUsed = True\<rparr>)"
  by (simp add: parseResponseBody_def text_of_def split: option.splits)

lemma parse_used: "bodyUsed r \<Longrightarrow> parseResponseBody J r flag = Inl (TypeError ''Body is unusable'')"
  by (simp add: parseResponseBody_def text_of_def)




section \<open>The attempt loop\<close>

subsection \<open>One attempt\<close>

lemma caught_not_validation: "\<not> isValidationError (caught t x)"
  by (cases x) (simp_all add: newTimeoutError_def)

lemma caught_message: "message (caught t x) \<noteq> []"
  by (cases x) (simp_all add: newTimeoutError_def)

lemma step_rejected:
  assumes "fetch P req a = Rejected t"
  shows "\<exists>st'. attemptStep P mo req a st = Continue st' \<and>
           dispatches st' = Suc (dispatches st) \<and> lastResponse st' = lastResponse st \<and>
           lastError st' = Some (caught (timeout mo) t)"
  using assms by (simp add: attemptStep_def innerCatch_def Let_def caught_not_validation)


lemma step_terminal:
  assumes "fetch P req a = Resolved m" "\<not> validateStatus mo (resp_status m)"
    and "\<not> shouldRetry (Some (resp_status m)) a (retry mo)"
    and "parseResponseBody (JSON_parse P) \<lparr>received = m, bodyUsed = False\<rparr> (parseResponse mo) = Inr (b, r')"
  shows "attemptStep P mo req a st =
           Return (Inr \<lparr>status = failed, statusCode = resp_status m, body = b,
                        headers = parseResponseHeaders (resp_headers m),
                        error = Some (''HTTP '' @ show_int (resp_status m) @ '': '' @ resp_statusText m),
                        retryable = Some (resp_status m \<in> set (retryableStatuses (retry mo)))\<rparr>)
                  (st\<lparr>dispatches := Suc (dispatches st), lastResponse := Some r'\<rparr>)"
  using assms by (simp add: attemptStep_def onResponse_def Let_def)

lemma step_retry:
  assumes "fetch P req a = Resolved m" "\<not> validateStatus mo (resp_status m)"
    and "shouldRetry (Some (resp_status m)) a (retry mo)"
  shows "\<exists>st'. attemptStep P mo req a st = Continue st' \<and>
           dispatches st' = Suc (dispatches st) \<and>
           lastResponse st' = Some \<lparr>received = m, bodyUsed = True\<rparr> \<and>
           lastError st' = lastError st"
proof -
  from parse_fresh obtain b where
    "parseResponseBody (JSON_parse P) \<lparr>received = m, bodyUsed = False\<rparr> (parseResponse mo)
       = Inr (b, \<lparr>received = m, bodyUsed = True\<rparr>)" by blast
  with assms show ?thesis by (simp add: attemptStep_def onResponse_def Let_def)
qed

lemma step_unreadable:
  assumes "fetch P req a = Unreadable m"
  shows "\<exists>st'. attemptStep P mo req a st = Continue st' \<and>
           dispatches st' = Suc (dispatches st) \<and>
           lastResponse st' = Some \<lparr>received = m, bodyUsed = True\<rparr> \<and>
           lastError st' = Some (NetworkError ''Network error: Body is unusable'')"
  using assms
  by (simp add: attemptStep_def onResponse_def innerCatch_def Let_def parse_used)

lemma step_goesOn:
  assumes "goesOn mo (fetch P req a)" "a < maxAttempts (retry mo)"
  shows "\<exists>st'. attemptStep P mo req a st = Continue st' \<and> dispatches st' = Suc (dispatches st)"
proof (cases "fetch P req a")
  case (Resolved m)
  with assms have "\<not> validateStatus mo (resp_status m)" "shouldRetry (Some (resp_status m)) a (retry mo)"
    by (simp_all add: shouldRetry_def isRetryableStatus_def)
  from step_retry [OF Resolved this] show ?thesis by blast
next
  case (Unreadable m)
  from step_unreadable [OF this] show ?thesis by blast
next
  case (Rejected t)
  from step_rejected [OF this] show ?thesis by blast
qed

lemma step_return_Inr:
  assumes "attemptStep P mo req a st = Return res st'"
  shows "\<exists>r. res = Inr r"
  using assms
  by (auto simp: attemptStep_def onResponse_def innerCatch_def Let_def caught_not_validation
           split: FetchResult.splits sum.splits if_splits prod.splits)

lemma step_keeps_response:
  assumes "attemptStep P mo req a st = Continue st'"
    and "lastResponse st \<noteq> None \<or> \<not> (\<exists>t. fetch P req a = Rejected t)"
  shows "lastResponse st' \<noteq> None"
  using assms
  by (auto simp: attemptStep_def onResponse_def innerCatch_def Let_def caught_not_validation
           split: FetchResult.splits sum.splits if_splits prod.splits)

subsection \<open>Runs of attempts\<close>

lemma loop_unfold_continue:
  assumes "a \<le> maxAttempts (retry mo)" "attemptStep P mo req a st = Continue st'"
  shows "attemptLoop P mo req a st = attemptLoop P mo req (a + 1) st'"
  using assms by (subst attemptLoop.simps) simp

lemma loop_unfold_return:
  assumes "a \<le> maxAttempts (retry mo)" "attemptStep P mo req a st = Return res st'"
  shows "attemptLoop P mo req a st = (res, st')"
  using assms by (subst attemptLoop.simps) simp

lemma loop_unfold_exit:
  assumes "maxAttempts (retry mo) < a"
  shows "attemptLoop P mo req a st = afterLoop P mo st"
  using assms by (subst attemptLoop.simps) simp

lemma loop_reaches:
  assumes "\<forall>j. a \<le> j \<and> j < k \<longrightarrow> goesOn mo (fetch P req j)" "a \<le> k" "k \<le> maxAttempts (retry mo)"
  shows "\<exists>st'. attemptLoop P mo req a st = attemptLoop P mo req k st' \<and>
           dispatches st' = dispatches st + nat (k - a)"
  using assms
proof (induction "nat (k - a)" arbitrary: a st)
  case 0
  then have "a = k" by simp
  then show ?case by auto
next
  case (Suc n)
  then have lt: "a < k" by linarith
  with Suc.prems have g: "goesOn mo (fetch P req a)" and am: "a < maxAttempts (retry mo)" by auto
  from step_goesOn [OF g am] obtain st1 where
    s1: "attemptStep P mo req a st = Continue st1" "dispatches st1 = Suc (dispatches st)" by blast
  from am s1 have u: "attemptLoop P mo req a st = attemptLoop P mo req (a + 1) st1"
    by (simp add: loop_unfold_continue)
  have "n = nat (k - (a + 1))" using Suc.hyps(2) by linarith
  moreover have "\<forall>j. a + 1 \<le> j \<and> j < k \<longrightarrow> goesOn mo (fetch P req j)" using Suc.prems(1) by auto
  moreover have "a + 1 \<le> k" using lt by simp
  ultimately obtain st' where
    "attemptLoop P mo req (a + 1) st1 = attemptLoop P mo req k st'"
    "dispatches st' = dispatches st1 + nat (k - (a + 1))"
    using Suc.hyps(1) [of "a + 1" st1] Suc.prems(3) by blast
  with u s1 lt show ?case by (auto simp: nat_diff_distrib)
qed

lemma loop_rejected_tail:
  assumes "\<forall>j. a \<le> j \<and> j \<le> maxAttempts (retry mo) \<longrightarrow> (\<exists>t. fetch P req j = Rejected t)"
    and "a \<le> maxAttempts (retry mo)"
    and "fetch P req (maxAttempts (retry mo)) = Rejected t_last"
  shows "\<exists>st'. attemptLoop P mo req a st = afterLoop P mo st' \<and>
           dispatches st' = dispatches st + nat (maxAttempts (retry mo) - a + 1) \<and>
           lastResponse st' = lastResponse st \<and>
           lastError st' = Some (caught (timeout mo) t_last)"
  using assms
proof (induction "nat (maxAttempts (retry mo) - a)" arbitrary: a st)
  case 0
  then have e: "a = maxAttempts (retry mo)" by simp
  with "0.prems"(3) have "fetch P req a = Rejected t_last" by simp
  from step_rejected [OF this] obtain st1 where
    s1: "attemptStep P mo req a st = Continue st1" "dispatches st1 = Suc (dispatches st)"
        "lastResponse st1 = lastResponse st" "lastError st1 = Some (caught (timeout mo) t_last)" by blast
  from e s1 have "attemptLoop P mo req a st = afterLoop P mo st1"
    by (simp add: loop_unfold_continue loop_unfold_exit)
  with s1 e show ?case by auto
next
  case (Suc n)
  then have lt: "a < maxAttempts (retry mo)" by linarith
  with Suc.prems obtain t where "fetch P req a = Rejected t" by auto
  from step_rejected [OF this] obtain st1 where
    s1: "attemptStep P mo req a st = Continue st1" "dispatches st1 = Suc (dispatches st)"
        "lastResponse st1 = lastResponse st" by blast
  from lt s1 have u: "attemptLoop P mo req a st = attemptLoop P mo req (a + 1) st1"
    by (simp add: loop_unfold_continue)
  have "n = nat (maxAttempts (retry mo) - (a + 1))" using Suc.hyps(2) by linarith
  moreover have "\<forall>j. a + 1 \<le> j \<and> j \<le> maxAttempts (retry mo) \<longrightarrow> (\<exists>t. fetch P req j = Rejected t)"
    using Suc.prems(1) by auto
  moreover have "a + 1 \<le> maxAttempts (retry mo)" using lt by simp
  ultimately obtain st' where
    "attemptLoop P mo req (a + 1) st1 = afterLoop P mo st'"
    "dispatches st' = dispatches st1 + nat (maxAttempts (retry mo) - (a + 1) + 1)"
    "lastResponse st' = lastResponse st1" "lastError st' = Some (caught (timeout mo) t_last)"
    using Suc.hyps(1) [of "a + 1" st1] Suc.prems(3) by blast
  with u s1 lt show ?case by (auto simp: nat_diff_distrib nat_add_distrib)
qed

lemma afterLoop_response:
  assumes "lastResponse st = Some lr" "bodyUsed lr" "lastError st = Some e" "message e \<noteq> []"
  shows "afterLoop P mo st =
           (Inr \<lparr>status = failed, statusCode = resp_status (received lr), body = Text [],
                 headers = parseResponseHeaders (resp_headers (received lr)),
                 error = Some (message e), retryable = Some True\<rparr>, st)"
  using assms by (simp add: afterLoop_def Let_def parse_used)

text \<open>After the loop a response in hand gives \<open>retryable = true\<close>, whatever its status.\<close>

lemma afterLoop_retryable:
  assumes "lastResponse st = Some lr"
  shows "\<exists>r. fst (afterLoop P mo st) = Inr r \<and> retryable r = Some True \<and>
           statusCode r = resp_status (received lr) \<and> status r = failed"
  using assms by (simp add: afterLoop_def Let_def)

lemma afterLoop_no_response:
  assumes "lastResponse st = None"
  shows "afterLoop P mo st =
           (Inl (case lastError st of
                   Some e \<Rightarrow> e
                 | None \<Rightarrow> TransmissionError ''Failed to transmit SET after all retry attempts''), st)"
  using assms by (simp add: afterLoop_def)

lemma afterLoop_returns:
  assumes "lastResponse st \<noteq> None"
  shows "\<exists>r. fst (afterLoop P mo st) = Inr r"
  using assms by (auto simp: afterLoop_def Let_def)

lemma loop_returns:
  assumes "lastResponse st \<noteq> None"
  shows "\<exists>r. fst (attemptLoop P mo req a st) = Inr r"
  using assms
proof (induction "nat (maxAttempts (retry mo) + 1 - a)" arbitrary: a st)
  case 0
  then have "maxAttempts (retry mo) < a" by simp
  with afterLoop_returns [OF "0.prems"] show ?case by (simp add: loop_unfold_exit)
next
  case (Suc n)
  then have le: "a \<le> maxAttempts (retry mo)" by linarith
  show ?case
  proof (cases "attemptStep P mo req a st")
    case (Return res st')
    with step_return_Inr [OF Return] le show ?thesis by (auto simp: loop_unfold_return)
  next
    case (Continue st')
    from step_keeps_response [OF Continue] Suc.prems have "lastResponse st' \<noteq> None" by blast
    moreover have "n = nat (maxAttempts (retry mo) + 1 - (a + 1))" using Suc.hyps(2) by linarith
    ultimately have "\<exists>r. fst (attemptLoop P mo req (a + 1) st') = Inr r"
      using Suc.hyps(1) by blast
    with le Continue show ?thesis by (simp add: loop_unfold_continue)
  qed
qed

lemma loop_raises_iff:
  assumes "lastResponse st = None"
  shows "(\<exists>e. fst (attemptLoop P mo req a st) = Inl e) \<longleftrightarrow>
           (\<forall>j. a \<le> j \<and> j \<le> maxAttempts (retry mo) \<longrightarrow> (\<exists>t. fetch P req j = Rejected t))"
  using assms
proof (induction "nat (maxAttempts (retry mo) + 1 - a)" arbitrary: a st)
  case 0
  then have "maxAttempts (retry mo) < a" by simp
  with "0.prems" show ?case by (auto simp: loop_unfold_exit afterLoop_no_response)
next
  case (Suc n)
  then have le: "a \<le> maxAttempts (retry mo)" by linarith
  have n: "n = nat (maxAttempts (retry mo) + 1 - (a + 1))" using Suc.hyps(2) by linarith
  show ?case
  proof (cases "\<exists>t. fetch P req a = Rejected t")
    case True
    then obtain t where Rejected: "fetch P req a = Rejected t" by blast
    from step_rejected [OF this] obtain st1 where
      s1: "attemptStep P mo req a st = Continue st1" "lastResponse st1 = lastResponse st" by blast
    with Suc.prems have "lastResponse st1 = None" by simp
    from Suc.hyps(1) [OF n this]
    have ih: "(\<exists>e. fst (attemptLoop P mo req (a + 1) st1) = Inl e) \<longleftrightarrow>
           (\<forall>j. a + 1 \<le> j \<and> j \<le> maxAttempts (retry mo) \<longrightarrow> (\<exists>t. fetch P req j = Rejected t))" .
    have "(\<forall>j. a \<le> j \<and> j \<le> maxAttempts (retry mo) \<longrightarrow> (\<exists>t. fetch P req j = Rejected t)) \<longleftrightarrow>
          (\<forall>j. a + 1 \<le> j \<and> j \<le> maxAttempts (retry mo) \<longrightarrow> (\<exists>t. fetch P req j = Rejected t))"
    proof (intro iffI allI impI)
      fix j assume h: "\<forall>j. a + 1 \<le> j \<and> j \<le> maxAttempts (retry mo) \<longrightarrow> (\<exists>t. fetch P req j = Rejected t)"
        and j: "a \<le> j \<and> j \<le> maxAttempts (retry mo)"
      show "\<exists>t. fetch P req j = Rejected t"
      proof (cases "j = a")
        case True
        with Rejected show ?thesis by simp
      next
        case False
        with j have "a + 1 \<le> j \<and> j \<le> maxAttempts (retry mo)" by simp
        with h show ?thesis by blast
      qed
    qed auto
    with ih le s1 show ?thesis by (simp add: loop_unfold_continue)
  next
    case False
    have "\<exists>r. fst (attemptLoop P mo req a st) = Inr r"
    proof (cases "attemptStep P mo req a st")
      case (Return res st')
      with step_return_Inr [OF Return] le show ?thesis by (auto simp: loop_unfold_return)
    next
      case (Continue st')
      from step_keeps_response [OF Continue] False have "lastResponse st' \<noteq> None" by blast
      from loop_returns [OF this] le Continue show ?thesis by (simp add: loop_unfold_continue)
    qed
    moreover have "\<not> (\<forall>j. a \<le> j \<and> j \<le> maxAttempts (retry mo) \<longrightarrow> (\<exists>t. fetch P req j = Rejected t))"
      using False le by auto
    ultimately show ?thesis by auto
  qed
qed

subsection \<open>The whole call\<close>

lemma transmitSET_valid:
  assumes "isValidSET jwt" "URL_parse P u = Some parsedUrl"
  shows "transmitSET P jwt u options =
           attemptLoop P (mergeOptions options) (buildRequest (mergeOptions options) parsedUrl jwt)
             1 initialState"
  using assms by (simp add: transmitSET_def Let_def)

lemma transmitSET_terminal:
  fixes P jwt u options parsedUrl k m
  defines "mo \<equiv> mergeOptions options"
  defines "req \<equiv> buildRequest mo parsedUrl jwt"
  assumes "isValidSET jwt" and "URL_parse P u = Some parsedUrl"
    and "1 \<le> k" and "k \<le> maxAttempts (retry mo)"
    and "\<forall>j. 1 \<le> j \<and> j < k \<longrightarrow> goesOn mo (fetch P req j)"
    and "fetch P req k = Resolved m" and "\<not> validateStatus mo (resp_status m)"
    and "\<not> shouldRetry (Some (resp_status m)) k (retry mo)"
  shows "\<exists>b r'. parseResponseBody (JSON_parse P) \<lparr>received = m, bodyUsed = False\<rparr> (parseResponse mo)
                  = Inr (b, r') \<and>
           fst (transmitSET P jwt u options) =
             Inr \<lparr>status = failed, statusCode = resp_status m, body = b,
                  headers = parseResponseHeaders (resp_headers m),
                  error = Some (''HTTP '' @ show_int (resp_status m) @ '': '' @ resp_statusText m),
                  retryable = Some (resp_status m \<in> set (retryableStatuses (retry mo)))\<rparr> \<and>
           dispatches (snd (transmitSET P jwt u options)) = nat k"
proof -
  from parse_fresh obtain b where
    b: "parseResponseBody (JSON_parse P) \<lparr>received = m, bodyUsed = False\<rparr> (parseResponse mo)
          = Inr (b, \<lparr>received = m, bodyUsed = True\<rparr>)" by blast
  from loop_reaches [OF assms(7) assms(5) assms(6)] obtain st' where
    r: "attemptLoop P mo req 1 initialState = attemptLoop P mo req k st'"
       "dispatches st' = dispatches initialState + nat (k - 1)" by blast
  from step_terminal [OF assms(8) assms(9) assms(10) b] assms(6)
  have "attemptLoop P mo req k st' =
          (Inr \<lparr>status = failed, statusCode = resp_status m, body = b,
                headers = parseResponseHeaders (resp_headers m),
                error = Some (''HTTP '' @ show_int (resp_status m) @ '': '' @ resp_statusText m),
                retryable = Some (resp_status m \<in> set (retryableStatuses (retry mo)))\<rparr>,
           st'\<lparr>dispatches := Suc (dispatches st'), lastResponse := Some \<lparr>received = m, bodyUsed = True\<rparr>\<rparr>)"
    by (simp add: loop_unfold_return)
  with r transmitSET_valid [OF assms(3) assms(4), of options] assms(5) b show ?thesis
    by (auto simp: mo_def req_def initialState_def)
qed

lemma transmitSET_response_then_failures:
  fixes P jwt u options parsedUrl k m t_last
  defines "mo \<equiv> mergeOptions options"
  defines "req \<equiv> buildRequest mo parsedUrl jwt"
  assumes "isValidSET jwt" and "URL_parse P u = Some parsedUrl"
    and "1 \<le> k" and "k < maxAttempts (retry mo)"
    and "\<forall>j. 1 \<le> j \<and> j < k \<longrightarrow> goesOn mo (fetch P req j)"
    and "fetch P req k = Unreadable m \<or>
         fetch P req k = Resolved m \<and> \<not> validateStatus mo (resp_status m) \<and>
           resp_status m \<in> set (retryableStatuses (retry mo))"
    and "\<forall>j. k < j \<and> j \<le> maxAttempts (retry mo) \<longrightarrow> (\<exists>t. fetch P req j = Rejected t)"
    and "fetch P req (maxAttempts (retry mo)) = Rejected t_last"
  shows "fst (transmitSET P jwt u options) =
           Inr \<lparr>status = failed, statusCode = resp_status m, body = Text [],
                headers = parseResponseHeaders (resp_headers m),
                error = Some (message (caught (timeout mo) t_last)), retryable = Some True\<rparr> \<and>
         dispatches (snd (transmitSET P jwt u options)) = nat (maxAttempts (retry mo))"
proof -
  have kle: "k \<le> maxAttempts (retry mo)" using assms(6) by simp
  from loop_reaches [OF assms(7) assms(5) kle] obtain st0 where
    r: "attemptLoop P mo req 1 initialState = attemptLoop P mo req k st0"
       "dispatches st0 = dispatches initialState + nat (k - 1)" by blast
  have "\<exists>st1. attemptStep P mo req k st0 = Continue st1 \<and> dispatches st1 = Suc (dispatches st0) \<and>
          lastResponse st1 = Some \<lparr>received = m, bodyUsed = True\<rparr>"
    using assms(8)
  proof
    assume "fetch P req k = Unreadable m"
    from step_unreadable [OF this] show ?thesis by blast
  next
    assume a: "fetch P req k = Resolved m \<and> \<not> validateStatus mo (resp_status m) \<and>
           resp_status m \<in> set (retryableStatuses (retry mo))"
    then have sr: "shouldRetry (Some (resp_status m)) k (retry mo)"
      using assms(6) by (simp add: shouldRetry_def isRetryableStatus_def)
    from a have "fetch P req k = Resolved m" "\<not> validateStatus mo (resp_status m)" by simp_all
    from step_retry [OF this sr] show ?thesis by blast
  qed
  then obtain st1 where
    s1: "attemptStep P mo req k st0 = Continue st1" "dispatches st1 = Suc (dispatches st0)"
        "lastResponse st1 = Some \<lparr>received = m, bodyUsed = True\<rparr>" by blast
  from kle s1 have u1: "attemptLoop P mo req k st0 = attemptLoop P mo req (k + 1) st1"
    by (simp add: loop_unfold_continue)
  have "\<forall>j. k + 1 \<le> j \<and> j \<le> maxAttempts (retry mo) \<longrightarrow> (\<exists>t. fetch P req j = Rejected t)"
    using assms(9) by auto
  moreover have "k + 1 \<le> maxAttempts (retry mo)" using assms(6) by simp
  ultimately obtain st2 where
    s2: "attemptLoop P mo req (k + 1) st1 = afterLoop P mo st2"
        "dispatches st2 = dispatches st1 + nat (maxAttempts (retry mo) - (k + 1) + 1)"
        "lastResponse st2 = lastResponse st1" "lastError st2 = Some (caught (timeout mo) t_last)"
    using loop_rejected_tail [OF _ _ assms(10), of "k + 1" st1] by blast
  from s2 s1 have "afterLoop P mo st2 =
           (Inr \<lparr>status = failed, statusCode = resp_status m, body = Text [],
                 headers = parseResponseHeaders (resp_headers m),
                 error = Some (message (caught (timeout mo) t_last)), retryable = Some True\<rparr>, st2)"
    using afterLoop_response [of st2 "\<lparr>received = m, bodyUsed = True\<rparr>" "caught (timeout mo) t_last" P mo]
    by (simp add: caught_message)
  moreover have "dispatches st2 = nat (maxAttempts (retry mo))"
    using s2(2) s1(2) r(2) assms(5) assms(6) by (simp add: initialState_def)
  ultimately show ?thesis
    using r u1 s2(1) transmitSET_valid [OF assms(3) assms(4), of options]
    by (simp add: mo_def req_def)
qed


lemma transmitSET_all_rejected:
  fixes P jwt u options parsedUrl t_last
  defines "mo \<equiv> mergeOptions options"
  defines "req \<equiv> buildRequest mo parsedUrl jwt"
  assumes "isValidSET jwt" and "URL_parse P u = Some parsedUrl"
    and "1 \<le> maxAttempts (retry mo)"
    and "\<forall>j. 1 \<le> j \<and> j \<le> maxAttempts (retry mo) \<longrightarrow> (\<exists>t. fetch P req j = Rejected t)"
    and "fetch P req (maxAttempts (retry mo)) = Rejected t_last"
  shows "fst (transmitSET P jwt u options) = Inl (caught (timeout mo) t_last) \<and>
         dispatches (snd (transmitSET P jwt u options)) = nat (maxAttempts (retry mo))"
proof -
  from loop_rejected_tail [OF assms(6) assms(5) assms(7), of initialState] obtain st' where
    s: "attemptLoop P mo req 1 initialState = afterLoop P mo st'"
       "dispatches st' = dispatches initialState + nat (maxAttempts (retry mo) - 1 + 1)"
       "lastResponse st' = lastResponse initialState" "lastError st' = Some (caught (timeout mo) t_last)"
    by blast
  then have "lastResponse st' = None" by (simp add: initialState_def)
  from afterLoop_no_response [OF this, of P mo] s transmitSET_valid [OF assms(3) assms(4), of options]
  show ?thesis by (simp add: mo_def req_def initialState_def)
qed

lemma transmitSET_raises_iff:
  assumes "isValidSET jwt" and "URL_parse P u = Some parsedUrl"
  shows "(\<exists>e. fst (transmitSET P jwt u options) = Inl e) \<longleftrightarrow>
           (\<forall>j. 1 \<le> j \<and> j \<le> maxAttempts (retry (mergeOptions options)) \<longrightarrow>
                (\<exists>t. fetch P (buildRequest (mergeOptions options) parsedUrl jwt) j = Rejected t))"
  using loop_raises_iff [of initialState P "mergeOptions options" _ 1]
    transmitSET_valid [OF assms, of options]
  by (simp add: initialState_def)

lemma transmitSET_invalid:
  assumes "\<not> isValidSET jwt \<or> URL_parse P u = None"
  shows "(\<exists>msg. fst (transmitSET P jwt u options) = Inl (ValidationError msg)) \<and>
         dispatches (snd (transmitSET P jwt u options)) = 0"
  using assms by (auto simp: transmitSET_def initialState_def)

subsection \<open>The fixtures\<close>

lemma mock_url:
  "URL_parse (mockPlatform script) ''https://example.com/events'' = Some ''https://example.com/events''"
  by (simp add: mockPlatform_def)

lemma mock_fetch: "fetch (mockPlatform script) req attempt = script attempt"
  by (simp add: mockPlatform_def)

lemma mock_parse:
  "parseResponseBody (JSON_parse (mockPlatform script))
     \<lparr>received = mockResponse c txt, bodyUsed = False\<rparr> flag
   = Inr (Text txt, \<lparr>received = mockResponse c txt, bodyUsed = True\<rparr>)"
  by (simp add: parseResponseBody_def text_of_def mockResponse_def)

lemma mock_headers:
  "parseResponseHeaders (resp_headers (mockResponse c txt)) = [(''content-type'', ''text/plain;charset=UTF-8'')]"
  by (simp add: parseResponseHeaders_def mockResponse_def)

lemma mock_status: "resp_status (mockResponse c txt) = c" "resp_statusText (mockResponse c txt) = []"
  by (simp_all add: mockResponse_def)

lemma merged_retryOptions:
  "maxAttempts (retry (mergeOptions (retryOptions n))) = n"
  "retryableStatuses (retry (mergeOptions (retryOptions n))) = [429, 502, 503, 504]"
  "validateStatus (mergeOptions (retryOptions n)) = DEFAULT_validateStatus"
  "timeout (mergeOptions (retryOptions n)) = 30000"
  by (simp_all add: mergeOptions_def mergeRetry_def retryOptions_def noOptions_def
        noRetryOptions_def DEFAULT_RETRY_CONFIG_def DEFAULT_timeout_def)

lemma merged_noOptions:
  "maxAttempts (retry (mergeOptions noOptions)) = 3"
  "retryableStatuses (retry (mergeOptions noOptions)) = [429, 502, 503, 504]"
  "validateStatus (mergeOptions noOptions) = DEFAULT_validateStatus"
  "timeout (mergeOptions noOptions) = 30000"
  by (simp_all add: mergeOptions_def mergeRetry_def noOptions_def
        noRetryOptions_def DEFAULT_RETRY_CONFIG_def DEFAULT_timeout_def)

lemma show_int_examples:
  "show_int 401 = ''401''" "show_int 500 = ''500''" "show_int 503 = ''503''"
  "show_int 30000 = ''30000''"
  by (simp_all add: show_int_def show_nat.simps digit_char_def)


section \<open>The outcomes of transmitSET\<close>



text \<open>
  Claim C2. The token and the URL are valid, attempt \<open>k\<close> is dispatched and resolves with
  a status that is not accepted, and \<open>shouldRetry\<close> denies another attempt. Then the call
  returns the failed outcome with that status, body, normalized headers, the error text
  \<open>HTTP <status>: <status text>\<close>, and \<open>retryable\<close> equal to the membership of the status
  in \<open>retryableStatuses\<close>, whether or not the cap is what denied the retry; it has
  dispatched \<open>k\<close> times. One 401 gives one dispatch and \<open>retryable = false\<close>.
\<close>

theorem transmitSET_failure_in_loop:
  assumes "isValidSET jwt" and "URL_parse P u = Some parsedUrl"
    and "1 \<le> k" and "k \<le> maxAttempts (retry (mergeOptions options))"
    and "\<forall>j. 1 \<le> j \<and> j < k \<longrightarrow>
           goesOn (mergeOptions options)
             (fetch P (buildRequest (mergeOptions options) parsedUrl jwt) j)"
    and "fetch P (buildRequest (mergeOptions options) parsedUrl jwt) k = Resolved m"
    and "\<not> validateStatus (mergeOptions options) (resp_status m)"
    and "\<not> shouldRetry (Some (resp_status m)) k (retry (mergeOptions options))"
  shows "\<exists>b r'. parseResponseBody (JSON_parse P) \<lparr>received = m, bodyUsed = False\<rparr>
                   (parseResponse (mergeOptions options)) = Inr (b, r') \<and>
           fst (transmitSET P jwt u options) =
             Inr \<lparr>status = failed, statusCode = resp_status m, body = b,
                  headers = parseResponseHeaders (resp_headers m),
                  error = Some (''HTTP '' @ show_int (resp_status m) @ '': '' @ resp_statusText m),
                  retryable = Some (resp_status m
                                    \<in> set (retryableStatuses (retry (mergeOptions options))))\<rparr> \<and>
           dispatches (snd (transmitSET P jwt u options)) = nat k"
  using assms by (rule transmitSET_terminal)

theorem transmitSET_scenario_D:
  "fst (transmitSET (mockPlatform (always (Resolved (mockResponse 401 ''Unauthorized''))))
          ''header.payload.signature'' ''https://example.com/events'' noOptions) =
     Inr \<lparr>status = failed, statusCode = 401, body = Text ''Unauthorized'',
          headers = [(''content-type'', ''text/plain;charset=UTF-8'')],
          error = Some ''HTTP 401: '', retryable = Some False\<rparr> \<and>
   dispatches (snd (transmitSET (mockPlatform (always (Resolved (mockResponse 401 ''Unauthorized''))))
          ''header.payload.signature'' ''https://example.com/events'' noOptions)) = 1"
proof -
  let ?P = "mockPlatform (always (Resolved (mockResponse 401 ''Unauthorized'')))"
  let ?mo = "mergeOptions noOptions"
  let ?req = "buildRequest ?mo ''https://example.com/events'' ''header.payload.signature''"
  have before: "\<forall>j. 1 \<le> j \<and> j < 1 \<longrightarrow> goesOn ?mo (fetch ?P ?req j)" by auto
  have at: "fetch ?P ?req 1 = Resolved (mockResponse 401 ''Unauthorized'')"
    by (simp add: mock_fetch always_def)
  have no: "\<not> validateStatus ?mo (resp_status (mockResponse 401 ''Unauthorized''))"
    by (simp add: merged_noOptions mock_status DEFAULT_validateStatus_def)
  have deny: "\<not> shouldRetry (Some (resp_status (mockResponse 401 ''Unauthorized''))) 1 (retry ?mo)"
    by (simp add: shouldRetry_def isRetryableStatus_def merged_noOptions mock_status)
  from transmitSET_failure_in_loop [OF valid_example mock_url _ _ before at no deny]
  show ?thesis
    by (simp add: merged_noOptions mock_parse mock_headers mock_status show_int_examples)
qed



text \<open>
  Claim C4. \<open>transmitSET\<close> throws exactly when the token or the URL is invalid, or every
  attempt the cap allows was rejected by the transport. In the first case it throws a
  \<open>ValidationError\<close> and has dispatched nothing. In the second, with at least one attempt
  allowed, it throws the \<open>TimeoutError\<close> or \<open>NetworkError\<close> made from the last rejection,
  after exactly \<open>maxAttempts\<close> dispatches (with no attempt allowed at all it throws the
  \<open>TransmissionError\<close> of the last line, after none). As soon as one attempt within the cap
  resolves with a response, the call returns an outcome. With two attempts allowed and
  every dispatch refused at the connection, there are two dispatches and a \<open>NetworkError\<close>.
\<close>

theorem transmitSET_raises:
  "((\<exists>e. fst (transmitSET P jwt u options) = Inl e) \<longleftrightarrow>
      (\<not> isValidSET jwt \<or> URL_parse P u = None \<or>
       (\<exists>parsedUrl. URL_parse P u = Some parsedUrl \<and>
          (\<forall>j. 1 \<le> j \<and> j \<le> maxAttempts (retry (mergeOptions options)) \<longrightarrow>
             (\<exists>t. fetch P (buildRequest (mergeOptions options) parsedUrl jwt) j = Rejected t))))) \<and>
   (\<not> isValidSET jwt \<or> URL_parse P u = None \<longrightarrow>
      (\<exists>msg. fst (transmitSET P jwt u options) = Inl (ValidationError msg)) \<and>
      dispatches (snd (transmitSET P jwt u options)) = 0) \<and>
   (isValidSET jwt \<and> URL_parse P u = Some parsedUrl \<and>
    1 \<le> maxAttempts (retry (mergeOptions options)) \<and>
    (\<forall>j. 1 \<le> j \<and> j \<le> maxAttempts (retry (mergeOptions options)) \<longrightarrow>
       (\<exists>t. fetch P (buildRequest (mergeOptions options) parsedUrl jwt) j = Rejected t)) \<longrightarrow>
      (\<exists>t. fetch P (buildRequest (mergeOptions options) parsedUrl jwt)
              (maxAttempts (retry (mergeOptions options))) = Rejected t \<and>
           fst (transmitSET P jwt u options) = Inl (caught (timeout (mergeOptions options)) t)) \<and>
      dispatches (snd (transmitSET P jwt u options)) =
        nat (maxAttempts (retry (mergeOptions options)))) \<and>
   (isValidSET jwt \<and> URL_parse P u = Some parsedUrl \<and>
    maxAttempts (retry (mergeOptions options)) < 1 \<longrightarrow>
      fst (transmitSET P jwt u options) =
        Inl (TransmissionError ''Failed to transmit SET after all retry attempts'') \<and>
      dispatches (snd (transmitSET P jwt u options)) = 0) \<and>
   (isValidSET jwt \<and> URL_parse P u = Some parsedUrl \<and>
    (\<exists>j m. 1 \<le> j \<and> j \<le> maxAttempts (retry (mergeOptions options)) \<and>
       fetch P (buildRequest (mergeOptions options) parsedUrl jwt) j = Resolved m) \<longrightarrow>
      (\<exists>r. fst (transmitSET P jwt u options) = Inr r))"
proof (intro conjI impI)
  show "(\<exists>e. fst (transmitSET P jwt u options) = Inl e) \<longleftrightarrow>
      (\<not> isValidSET jwt \<or> URL_parse P u = None \<or>
       (\<exists>parsedUrl. URL_parse P u = Some parsedUrl \<and>
          (\<forall>j. 1 \<le> j \<and> j \<le> maxAttempts (retry (mergeOptions options)) \<longrightarrow>
             (\<exists>t. fetch P (buildRequest (mergeOptions options) parsedUrl jwt) j = Rejected t))))"
  proof (cases "\<not> isValidSET jwt \<or> URL_parse P u = None")
    case True
    with transmitSET_invalid [OF True, of options] show ?thesis by auto
  next
    case False
    then obtain parsedUrl where v: "isValidSET jwt" "URL_parse P u = Some parsedUrl" by auto
    from transmitSET_raises_iff [OF v, of options] v show ?thesis by simp
  qed
next
  assume "\<not> isValidSET jwt \<or> URL_parse P u = None"
  from transmitSET_invalid [OF this, of options]
  show "\<exists>msg. fst (transmitSET P jwt u options) = Inl (ValidationError msg)"
    and "dispatches (snd (transmitSET P jwt u options)) = 0" by simp_all
next
  assume a: "isValidSET jwt \<and> URL_parse P u = Some parsedUrl \<and>
    1 \<le> maxAttempts (retry (mergeOptions options)) \<and>
    (\<forall>j. 1 \<le> j \<and> j \<le> maxAttempts (retry (mergeOptions options)) \<longrightarrow>
       (\<exists>t. fetch P (buildRequest (mergeOptions options) parsedUrl jwt) j = Rejected t))"
  then obtain t where t: "fetch P (buildRequest (mergeOptions options) parsedUrl jwt)
              (maxAttempts (retry (mergeOptions options))) = Rejected t" by auto
  from a have v: "isValidSET jwt" "URL_parse P u = Some parsedUrl"
    "1 \<le> maxAttempts (retry (mergeOptions options))"
    "\<forall>j. 1 \<le> j \<and> j \<le> maxAttempts (retry (mergeOptions options)) \<longrightarrow>
       (\<exists>t. fetch P (buildRequest (mergeOptions options) parsedUrl jwt) j = Rejected t)" by simp_all
  from transmitSET_all_rejected [OF v t] t
  show "\<exists>t. fetch P (buildRequest (mergeOptions options) parsedUrl jwt)
              (maxAttempts (retry (mergeOptions options))) = Rejected t \<and>
           fst (transmitSET P jwt u options) = Inl (caught (timeout (mergeOptions options)) t)"
    and "dispatches (snd (transmitSET P jwt u options)) =
        nat (maxAttempts (retry (mergeOptions options)))" by auto
next
  assume a: "isValidSET jwt \<and> URL_parse P u = Some parsedUrl \<and>
    maxAttempts (retry (mergeOptions options)) < 1"
  then have "transmitSET P jwt u options = afterLoop P (mergeOptions options) initialState"
    by (simp add: transmitSET_valid loop_unfold_exit)
  then show "fst (transmitSET P jwt u options) =
        Inl (TransmissionError ''Failed to transmit SET after all retry attempts'')"
    and "dispatches (snd (transmitSET P jwt u options)) = 0"
    by (simp_all add: afterLoop_def initialState_def)
next
  assume a: "isValidSET jwt \<and> URL_parse P u = Some parsedUrl \<and>
    (\<exists>j m. 1 \<le> j \<and> j \<le> maxAttempts (retry (mergeOptions options)) \<and>
       fetch P (buildRequest (mergeOptions options) parsedUrl jwt) j = Resolved m)"
  then have v: "isValidSET jwt" "URL_parse P u = Some parsedUrl" by simp_all
  from a transmitSET_raises_iff [OF v, of options]
  have "\<not> (\<exists>e. fst (transmitSET P jwt u options) = Inl e)" by auto
  then show "\<exists>r. fst (transmitSET P jwt u options) = Inr r"
    by (cases "fst (transmitSET P jwt u options)") auto
qed

theorem transmitSET_scenario_E:
  "fst (transmitSET (mockPlatform (always (Rejected (ThrownError ''Connection refused''))))
          ''header.payload.signature'' ''https://example.com/events'' (retryOptions 2)) =
     Inl (NetworkError ''Network error: Connection refused'') \<and>
   dispatches (snd (transmitSET (mockPlatform (always (Rejected (ThrownError ''Connection refused''))))
          ''header.payload.signature'' ''https://example.com/events'' (retryOptions 2))) = 2 \<and>
   (\<exists>msg. fst (transmitSET (mockPlatform (always (Rejected (ThrownError ''Connection refused''))))
          ''part1.part2'' ''https://example.com/events'' (retryOptions 2)) = Inl (ValidationError msg))"
proof -
  let ?P = "mockPlatform (always (Rejected (ThrownError ''Connection refused'')))"
  note r = transmitSET_raises [where P = ?P and u = "''https://example.com/events''"
      and options = "retryOptions 2" and parsedUrl = "''https://example.com/events''"]
  from r [where jwt = "''header.payload.signature''"] r [where jwt = "''part1.part2''"]
  show ?thesis
    using valid_example invalid_example
    by (simp add: merged_retryOptions mock_url mock_fetch always_def)
qed

text \<open>
  Claim C5. Attempt \<open>k\<close>, before the last one, obtains a response and the call goes on:
  the status is not accepted and is retried, or the body of the response cannot be read
  (then the status plays no part: it need not be one of \<open>retryableStatuses\<close>). Every
  later attempt up to the cap is rejected by the transport. Then the call does not throw.
  It returns the failed outcome with the status and the normalized headers of the response
  of attempt \<open>k\<close>, the message of the last transport error as error text,
  \<open>retryable = true\<close>, and the empty string as body, since the body of that response cannot
  be read again.
\<close>

theorem transmitSET_failure_after_response:
  assumes "isValidSET jwt" and "URL_parse P u = Some parsedUrl"
    and "1 \<le> k" and "k < maxAttempts (retry (mergeOptions options))"
    and "\<forall>j. 1 \<le> j \<and> j < k \<longrightarrow>
           goesOn (mergeOptions options)
             (fetch P (buildRequest (mergeOptions options) parsedUrl jwt) j)"
    and "fetch P (buildRequest (mergeOptions options) parsedUrl jwt) k = Unreadable m \<or>
         fetch P (buildRequest (mergeOptions options) parsedUrl jwt) k = Resolved m \<and>
           \<not> validateStatus (mergeOptions options) (resp_status m) \<and>
           resp_status m \<in> set (retryableStatuses (retry (mergeOptions options)))"
    and "\<forall>j. k < j \<and> j \<le> maxAttempts (retry (mergeOptions options)) \<longrightarrow>
           (\<exists>t. fetch P (buildRequest (mergeOptions options) parsedUrl jwt) j = Rejected t)"
    and "fetch P (buildRequest (mergeOptions options) parsedUrl jwt)
           (maxAttempts (retry (mergeOptions options))) = Rejected t_last"
  shows "fst (transmitSET P jwt u options) =
           Inr \<lparr>status = failed, statusCode = resp_status m, body = Text [],
                headers = parseResponseHeaders (resp_headers m),
                error = Some (message (caught (timeout (mergeOptions options)) t_last)),
                retryable = Some True\<rparr> \<and>
         dispatches (snd (transmitSET P jwt u options)) =
           nat (maxAttempts (retry (mergeOptions options)))"
  using assms by (rule transmitSET_response_then_failures)

theorem transmitSET_timeout_after_response:
  "fst (transmitSET (mockPlatform (firstThen (Unreadable (mockResponse 500 ''Internal Server Error''))
                                             (Rejected AbortError)))
          ''header.payload.signature'' ''https://example.com/events'' (retryOptions 2)) =
     Inr \<lparr>status = failed, statusCode = 500, body = Text [],
          headers = [(''content-type'', ''text/plain;charset=UTF-8'')],
          error = Some ''Request timed out (timeout: 30000ms)'', retryable = Some True\<rparr> \<and>
   dispatches (snd (transmitSET (mockPlatform (firstThen (Unreadable (mockResponse 500 ''Internal Server Error''))
                                                         (Rejected AbortError)))
          ''header.payload.signature'' ''https://example.com/events'' (retryOptions 2))) = 2 \<and>
   fst (transmitSET (mockPlatform (firstThen (Resolved (mockResponse 503 ''busy'')) (Rejected AbortError)))
          ''header.payload.signature'' ''https://example.com/events'' (retryOptions 3)) =
     Inr \<lparr>status = failed, statusCode = 503, body = Text [],
          headers = [(''content-type'', ''text/plain;charset=UTF-8'')],
          error = Some ''Request timed out (timeout: 30000ms)'', retryable = Some True\<rparr> \<and>
   dispatches (snd (transmitSET (mockPlatform (firstThen (Resolved (mockResponse 503 ''busy'')) (Rejected AbortError)))
          ''header.payload.signature'' ''https://example.com/events'' (retryOptions 3))) = 3"
proof -
  let ?S1 = "firstThen (Unreadable (mockResponse 500 ''Internal Server Error'')) (Rejected AbortError)"
  let ?S2 = "firstThen (Resolved (mockResponse 503 ''busy'')) (Rejected AbortError)"
  let ?req = "\<lambda>n. buildRequest (mergeOptions (retryOptions n)) ''https://example.com/events''
                 ''header.payload.signature''"
  have k: "(1::int) \<le> 1" "1 < maxAttempts (retry (mergeOptions (retryOptions 2)))"
    "1 < maxAttempts (retry (mergeOptions (retryOptions 3)))"
    by (simp_all add: merged_retryOptions)
  have before: "\<forall>j. 1 \<le> j \<and> j < 1 \<longrightarrow>
      goesOn (mergeOptions (retryOptions n)) (fetch (mockPlatform S) (?req n) j)" for n S
    by auto
  have at1: "fetch (mockPlatform ?S1) (?req 2) 1 = Unreadable (mockResponse 500 ''Internal Server Error'') \<or>
             fetch (mockPlatform ?S1) (?req 2) 1 = Resolved (mockResponse 500 ''Internal Server Error'') \<and>
               \<not> validateStatus (mergeOptions (retryOptions 2))
                   (resp_status (mockResponse 500 ''Internal Server Error'')) \<and>
               resp_status (mockResponse 500 ''Internal Server Error'')
                 \<in> set (retryableStatuses (retry (mergeOptions (retryOptions 2))))"
    by (simp add: mock_fetch firstThen_def)
  have at2: "fetch (mockPlatform ?S2) (?req 3) 1 = Unreadable (mockResponse 503 ''busy'') \<or>
             fetch (mockPlatform ?S2) (?req 3) 1 = Resolved (mockResponse 503 ''busy'') \<and>
               \<not> validateStatus (mergeOptions (retryOptions 3))
                   (resp_status (mockResponse 503 ''busy'')) \<and>
               resp_status (mockResponse 503 ''busy'')
                 \<in> set (retryableStatuses (retry (mergeOptions (retryOptions 3))))"
    by (simp add: mock_fetch firstThen_def merged_retryOptions mock_status
          DEFAULT_validateStatus_def)
  have after: "\<forall>j. 1 < j \<and> j \<le> maxAttempts (retry (mergeOptions (retryOptions n))) \<longrightarrow>
      (\<exists>t. fetch (mockPlatform (firstThen res (Rejected AbortError))) (?req n) j = Rejected t)"
    for n res
    by (simp add: mock_fetch firstThen_def)
  have last: "fetch (mockPlatform (firstThen res (Rejected AbortError))) (?req n)
                (maxAttempts (retry (mergeOptions (retryOptions n)))) = Rejected AbortError"
    if "1 < n" for n res
    using that by (simp add: mock_fetch firstThen_def merged_retryOptions)
  have l2: "(1::int) < 2" and l3: "(1::int) < 3" by simp_all
  from transmitSET_failure_after_response
         [OF valid_example mock_url k(1) k(2) before at1 after last [OF l2]]
       transmitSET_failure_after_response
         [OF valid_example mock_url k(1) k(3) before at2 after last [OF l3]]
  show ?thesis
    by (simp add: merged_retryOptions mock_headers mock_status newTimeoutError_def
          show_int_examples)
qed

end
